theory Spec2Isabelle
  imports Main
begin

section \<open>Python values, exceptions and the provider\<close>

text \<open>
  The script \<^verbatim>\<open>scrap.py\<close> is glue around two boto3 clients. Its own data are
  Python strings, bytes, lists and dicts; a dict is kept as an association list in
  insertion order and read with \<open>map_of\<close>.
\<close>

type_synonym bytes = string

datatype pyval =
    PNone
  | PBool bool
  | PInt int
  | PStr string
  | PBytes bytes
  | PList "pyval list"
  | PDict "(string \<times> pyval) list"

type_synonym dict = "(string \<times> pyval) list"

text \<open>
  Exceptions. A \<open>ClientError\<close> carries the value of
  \<^verbatim>\<open>e.response["Error"]["Code"]\<close>; the other constructors are the Python errors the
  script can meet and \<open>OtherError\<close> stands for any further exception class.
\<close>

datatype exn =
    ClientError string
  | KeyError string
  | TypeError
  | AttributeError
  | SystemExit int
  | OtherError string

datatype client = Client string

datatype api_call = Call client string dict

fun call_client :: "api_call \<Rightarrow> client" where
  "call_client (Call cl opn kw) = cl"

fun operation :: "api_call \<Rightarrow> string" where
  "operation (Call cl opn kw) = opn"

fun kwargs :: "api_call \<Rightarrow> dict" where
  "kwargs (Call cl opn kw) = kw"

text \<open>
  The provider is the environment: it answers a call, given the calls made before it,
  with a response dict or by raising.
\<close>

type_synonym provider = "api_call list \<Rightarrow> api_call \<Rightarrow> exn + dict"

datatype stream = Stdout | Stderr

datatype out_event = Print stream "pyval list" | Traceback exn

record world =
  calls :: "api_call list"
  printed :: "out_event list"

definition invoke ::
  "provider \<Rightarrow> client \<Rightarrow> string \<Rightarrow> dict \<Rightarrow> world \<Rightarrow> (exn + dict) \<times> world" where
  "invoke prov cl opn kw w =
     (prov (calls w) (Call cl opn kw), w\<lparr>calls := calls w @ [Call cl opn kw]\<rparr>)"

text \<open>\<^verbatim>\<open>d[k]\<close> on a dict: the value, or \<open>KeyError\<close>.\<close>

definition subscript :: "dict \<Rightarrow> string \<Rightarrow> exn + pyval" where
  "subscript d k = (case map_of d k of None \<Rightarrow> Inl (KeyError k) | Some v \<Rightarrow> Inr v)"

section \<open>upsert_lambda\<close>

text \<open>\<^verbatim>\<open>{"Variables": env} if env else {}\<close> (lines 33 and 48).\<close>

definition environment_arg :: "dict \<Rightarrow> pyval" where
  "environment_arg env = (if env \<noteq> [] then PDict [(''Variables'', PDict env)] else PDict [])"

definition update_function_code_kwargs :: "string \<Rightarrow> bytes \<Rightarrow> dict" where
  "update_function_code_kwargs function_name zip_bytes =
     [(''FunctionName'', PStr function_name),
      (''ZipFile'', PBytes zip_bytes),
      (''Publish'', PBool True)]"

definition update_function_configuration_kwargs :: "string \<Rightarrow> string \<Rightarrow> dict \<Rightarrow> dict" where
  "update_function_configuration_kwargs function_name role_arn env =
     [(''FunctionName'', PStr function_name),
      (''Handler'', PStr ''lambda_function.lambda_handler''),
      (''Runtime'', PStr ''python3.12''),
      (''Role'', PStr role_arn),
      (''Timeout'', PInt 30),
      (''MemorySize'', PInt 256),
      (''Environment'', environment_arg env)]"

definition create_function_kwargs :: "string \<Rightarrow> string \<Rightarrow> bytes \<Rightarrow> dict \<Rightarrow> dict" where
  "create_function_kwargs function_name role_arn zip_bytes env =
     [(''FunctionName'', PStr function_name),
      (''Runtime'', PStr ''python3.12''),
      (''Role'', PStr role_arn),
      (''Handler'', PStr ''lambda_function.lambda_handler''),
      (''Code'', PDict [(''ZipFile'', PBytes zip_bytes)]),
      (''Timeout'', PInt 30),
      (''MemorySize'', PInt 256),
      (''Publish'', PBool True),
      (''Environment'', environment_arg env)]"

text \<open>The body of the \<^verbatim>\<open>try\<close> block, lines 20 to 35.\<close>

definition update_path ::
  "provider \<Rightarrow> client \<Rightarrow> string \<Rightarrow> string \<Rightarrow> bytes \<Rightarrow> dict \<Rightarrow> world \<Rightarrow> (exn + pyval) \<times> world" where
  "update_path prov lambda_client function_name role_arn zip_bytes env w =
     (case invoke prov lambda_client ''update_function_code''
             (update_function_code_kwargs function_name zip_bytes) w of
        (Inl e, w1) \<Rightarrow> (Inl e, w1)
      | (Inr resp, w1) \<Rightarrow>
          (case invoke prov lambda_client ''update_function_configuration''
                  (update_function_configuration_kwargs function_name role_arn env) w1 of
             (Inl e, w2) \<Rightarrow> (Inl e, w2)
           | (Inr r, w2) \<Rightarrow> (subscript resp ''FunctionArn'', w2)))"

text \<open>The \<^verbatim>\<open>except\<close> handler's creation, lines 39 to 50.\<close>

definition create_path ::
  "provider \<Rightarrow> client \<Rightarrow> string \<Rightarrow> string \<Rightarrow> bytes \<Rightarrow> dict \<Rightarrow> world \<Rightarrow> (exn + pyval) \<times> world" where
  "create_path prov lambda_client function_name role_arn zip_bytes env w =
     (case invoke prov lambda_client ''create_function''
             (create_function_kwargs function_name role_arn zip_bytes env) w of
        (Inl e, w1) \<Rightarrow> (Inl e, w1)
      | (Inr resp, w1) \<Rightarrow> (subscript resp ''FunctionArn'', w1))"

text \<open>
  Lines 17 to 50. Only a \<open>ClientError\<close> is caught; the parameter \<open>region\<close> is not used
  by the body, as in the source.
\<close>

definition upsert_lambda ::
  "provider \<Rightarrow> client \<Rightarrow> string \<Rightarrow> string \<Rightarrow> bytes \<Rightarrow> string \<Rightarrow> dict \<Rightarrow> world
     \<Rightarrow> (exn + pyval) \<times> world" where
  "upsert_lambda prov lambda_client function_name role_arn zip_bytes region env w =
     (case update_path prov lambda_client function_name role_arn zip_bytes env w of
        (Inl (ClientError code), w1) \<Rightarrow>
          (if code \<noteq> ''ResourceNotFoundException'' then (Inl (ClientError code), w1)
           else create_path prov lambda_client function_name role_arn zip_bytes env w1)
      | (Inl e, w1) \<Rightarrow> (Inl e, w1)
      | (Inr arn, w1) \<Rightarrow> (Inr arn, w1))"

section \<open>add_invoke_permission\<close>

definition add_permission_kwargs :: "string \<Rightarrow> string \<Rightarrow> string \<Rightarrow> dict" where
  "add_permission_kwargs function_name bucket_arn statement_id =
     [(''FunctionName'', PStr function_name),
      (''StatementId'', PStr statement_id),
      (''Action'', PStr ''lambda:InvokeFunction''),
      (''Principal'', PStr ''s3.amazonaws.com''),
      (''SourceArn'', PStr bucket_arn)]"

text \<open>Lines 52 to 66; the default of \<open>statement_id\<close> is \<^verbatim>\<open>"AllowS3Invoke"\<close>.\<close>

definition default_statement_id :: string where
  "default_statement_id = ''AllowS3Invoke''"

definition add_invoke_permission ::
  "provider \<Rightarrow> client \<Rightarrow> string \<Rightarrow> string \<Rightarrow> string \<Rightarrow> world \<Rightarrow> (exn + unit) \<times> world" where
  "add_invoke_permission prov lambda_client function_name bucket_arn statement_id w =
     (case invoke prov lambda_client ''add_permission''
             (add_permission_kwargs function_name bucket_arn statement_id) w of
        (Inl (ClientError code), w1) \<Rightarrow>
          (if code = ''ResourceConflictException'' then (Inr (), w1)
           else (Inl (ClientError code), w1))
      | (Inl e, w1) \<Rightarrow> (Inl e, w1)
      | (Inr r, w1) \<Rightarrow> (Inr (), w1))"

section \<open>configure_s3_notification\<close>

text \<open>Truth value of an optional string: \<^verbatim>\<open>None\<close> and \<^verbatim>\<open>""\<close> are false.\<close>

fun truthy :: "string option \<Rightarrow> bool" where
  "truthy None = False"
| "truthy (Some s) = (s \<noteq> [])"

text \<open>Lines 72 to 76.\<close>

definition filter_rules :: "string option \<Rightarrow> string option \<Rightarrow> pyval list" where
  "filter_rules prefix suffix =
     (if truthy prefix
      then [PDict [(''Name'', PStr ''prefix''), (''Value'', PStr (the prefix))]] else [])
     @ (if truthy suffix
        then [PDict [(''Name'', PStr ''suffix''), (''Value'', PStr (the suffix))]] else [])"

text \<open>Lines 78 to 83.\<close>

definition lambda_config :: "pyval \<Rightarrow> string option \<Rightarrow> string option \<Rightarrow> dict" where
  "lambda_config lambda_arn prefix suffix =
     [(''LambdaFunctionArn'', lambda_arn),
      (''Events'', PList [PStr ''s3:ObjectCreated:*''])]
     @ (if filter_rules prefix suffix \<noteq> []
        then [(''Filter'',
               PDict [(''Key'', PDict [(''FilterRules'', PList (filter_rules prefix suffix))])])]
        else [])"

text \<open>
  What a \<^verbatim>\<open>for\<close> clause iterates over: the elements of a list, the keys of a dict,
  the characters of a string, the bytes of a bytes object; the other values are not
  iterable.
\<close>

fun py_iter :: "pyval \<Rightarrow> exn + pyval list" where
  "py_iter (PList xs) = Inr xs"
| "py_iter (PDict kvs) = Inr (map (\<lambda>kv. PStr (fst kv)) kvs)"
| "py_iter (PStr s) = Inr (map (\<lambda>c. PStr [c]) s)"
| "py_iter (PBytes s) = Inr (map (\<lambda>c. PInt (int (of_char c))) s)"
| "py_iter PNone = Inl TypeError"
| "py_iter (PBool b) = Inl TypeError"
| "py_iter (PInt i) = Inl TypeError"

text \<open>\<^verbatim>\<open>c.get(k)\<close>: only a dict has the method; a missing key gives \<^verbatim>\<open>None\<close>.\<close>

fun py_get :: "pyval \<Rightarrow> string \<Rightarrow> exn + pyval" where
  "py_get (PDict d) k = Inr (case map_of d k of None \<Rightarrow> PNone | Some v \<Rightarrow> v)"
| "py_get PNone k = Inl AttributeError"
| "py_get (PBool b) k = Inl AttributeError"
| "py_get (PInt i) k = Inl AttributeError"
| "py_get (PStr s) k = Inl AttributeError"
| "py_get (PBytes s) k = Inl AttributeError"
| "py_get (PList xs) k = Inl AttributeError"

text \<open>
  The comprehension of line 88. The comparison \<^verbatim>\<open>!=\<close> is HOL's disequality, which is
  Python's whenever \<open>lambda_arn\<close> is a string; the theorems below take it as \<open>PStr arn\<close>.
\<close>

fun keep_others :: "pyval \<Rightarrow> pyval list \<Rightarrow> exn + pyval list" where
  "keep_others lambda_arn [] = Inr []"
| "keep_others lambda_arn (c # cs) =
     (case py_get c ''LambdaFunctionArn'' of
        Inl e \<Rightarrow> Inl e
      | Inr v \<Rightarrow>
          (case keep_others lambda_arn cs of
             Inl e \<Rightarrow> Inl e
           | Inr ks \<Rightarrow> Inr (if v \<noteq> lambda_arn then c # ks else ks)))"

text \<open>
  Lines 72 to 89 and the dict literal of line 93: the value passed as
  \<^verbatim>\<open>NotificationConfiguration\<close>, computed from the configuration that was read.
\<close>

definition new_configuration ::
  "dict \<Rightarrow> pyval \<Rightarrow> string option \<Rightarrow> string option \<Rightarrow> exn + dict" where
  "new_configuration cfg lambda_arn prefix suffix =
     (case py_iter (case map_of cfg ''LambdaFunctionConfigurations'' of
                      None \<Rightarrow> PList [] | Some v \<Rightarrow> v) of
        Inl e \<Rightarrow> Inl e
      | Inr existing \<Rightarrow>
          (case keep_others lambda_arn existing of
             Inl e \<Rightarrow> Inl e
           | Inr kept \<Rightarrow>
               Inr [(''LambdaFunctionConfigurations'',
                     PList (kept @ [PDict (lambda_config lambda_arn prefix suffix)]))]))"

text \<open>Lines 68 to 94.\<close>

definition configure_s3_notification ::
  "provider \<Rightarrow> client \<Rightarrow> string \<Rightarrow> pyval \<Rightarrow> string option \<Rightarrow> string option \<Rightarrow> world
     \<Rightarrow> (exn + unit) \<times> world" where
  "configure_s3_notification prov s3_client bucket lambda_arn prefix suffix w =
     (case invoke prov s3_client ''get_bucket_notification_configuration''
             [(''Bucket'', PStr bucket)] w of
        (Inl e, w1) \<Rightarrow> (Inl e, w1)
      | (Inr cfg, w1) \<Rightarrow>
          (case new_configuration cfg lambda_arn prefix suffix of
             Inl e \<Rightarrow> (Inl e, w1)
           | Inr nc \<Rightarrow>
               (case invoke prov s3_client ''put_bucket_notification_configuration''
                       [(''Bucket'', PStr bucket), (''NotificationConfiguration'', PDict nc)] w1 of
                  (Inl e, w2) \<Rightarrow> (Inl e, w2)
                | (Inr r, w2) \<Rightarrow> (Inr (), w2))))"

section \<open>main\<close>

text \<open>
  The namespace returned by \<^verbatim>\<open>parse_args\<close> (lines 98 to 107); the field
  \<open>function_name\<close> is \<^verbatim>\<open>args.function\<close> and \<open>file_path\<close> is \<^verbatim>\<open>args.file\<close>.
\<close>

record args =
  bucket :: string
  function_name :: string
  role_arn :: string
  region :: string
  prefix :: "string option"
  suffix :: "string option"
  sns_topic_arn :: "string option"
  slack_webhook_url :: "string option"
  file_path :: string

text \<open>
  What \<open>main\<close> uses of the local machine: building the boto3 session and its clients
  (local work that performs no API operation), \<^verbatim>\<open>os.path.exists\<close>, and the archive
  that \<^verbatim>\<open>zip_bytes\<close> (lines 11 to 15) builds from a file. Where one of them fails,
  \<open>Inl m\<close>, the script sees an exception of the library, \<open>OtherError m\<close>.
\<close>

datatype session = Session string

record local_env =
  boto3_Session :: "string \<Rightarrow> string + session"
  session_client :: "session \<Rightarrow> string \<Rightarrow> string + client"
  path_exists :: "string \<Rightarrow> bool"
  zip_bytes :: "string \<Rightarrow> string \<Rightarrow> string + bytes"

text \<open>Lines 119 to 123.\<close>

definition build_env :: "args \<Rightarrow> dict" where
  "build_env a =
     (if truthy (sns_topic_arn a) then [(''SNS_TOPIC_ARN'', PStr (the (sns_topic_arn a)))] else [])
     @ (if truthy (slack_webhook_url a)
        then [(''SLACK_WEBHOOK_URL'', PStr (the (slack_webhook_url a)))] else [])"

definition print_line :: "stream \<Rightarrow> pyval list \<Rightarrow> world \<Rightarrow> world" where
  "print_line s vs w = w\<lparr>printed := printed w @ [Print s vs]\<rparr>"

text \<open>Lines 125 to 133: the three provider steps and the summary.\<close>

definition deploy ::
  "provider \<Rightarrow> client \<Rightarrow> client \<Rightarrow> args \<Rightarrow> bytes \<Rightarrow> world \<Rightarrow> (exn + unit) \<times> world" where
  "deploy prov s3 lam a code_zip w =
     (case upsert_lambda prov lam (function_name a) (role_arn a) code_zip (region a) (build_env a) w of
        (Inl e, w1) \<Rightarrow> (Inl e, w1)
      | (Inr lambda_arn, w1) \<Rightarrow>
          (case add_invoke_permission prov lam (function_name a) (''arn:aws:s3:::'' @ bucket a)
                  default_statement_id w1 of
             (Inl e, w2) \<Rightarrow> (Inl e, w2)
           | (Inr u, w2) \<Rightarrow>
               (case configure_s3_notification prov s3 (bucket a) lambda_arn
                       (prefix a) (suffix a) w2 of
                  (Inl e, w3) \<Rightarrow> (Inl e, w3)
                | (Inr u', w3) \<Rightarrow>
                    (Inr (),
                     print_line Stdout
                       [PStr (''S3 bucket '' @ [CHR 0x27] @ bucket a @ [CHR 0x27]
                              @ '' now triggers '' @ [CHR 0x27] @ function_name a @ [CHR 0x27]
                              @ '' on ObjectCreated events.'')]
                       (print_line Stdout [PStr ''Lambda ARN:'', lambda_arn]
                          (print_line Stdout [PStr ''Done.''] w3))))))"

text \<open>Lines 109 to 133, from the parsed arguments on.\<close>

definition main :: "local_env \<Rightarrow> provider \<Rightarrow> args \<Rightarrow> world \<Rightarrow> (exn + unit) \<times> world" where
  "main os prov a w =
     (case boto3_Session os (region a) of
        Inl m \<Rightarrow> (Inl (OtherError m), w)
      | Inr sess \<Rightarrow>
          (case session_client os sess ''s3'' of
             Inl m \<Rightarrow> (Inl (OtherError m), w)
           | Inr s3 \<Rightarrow>
               (case session_client os sess ''lambda'' of
                  Inl m \<Rightarrow> (Inl (OtherError m), w)
                | Inr lam \<Rightarrow>
                    (if \<not> path_exists os (file_path a)
                     then (Inl (SystemExit 1),
                           print_line Stderr [PStr (''Missing '' @ file_path a)] w)
                     else
                       (case zip_bytes os (file_path a) ''lambda_function.py'' of
                          Inl m \<Rightarrow> (Inl (OtherError m), w)
                        | Inr code_zip \<Rightarrow> deploy prov s3 lam a code_zip w)))))"

text \<open>
  Lines 135 and 136: the process. It starts with no call made and nothing printed; a
  normal return gives status 0, \<^verbatim>\<open>sys.exit(n)\<close> gives status \<open>n\<close>, and any other
  uncaught exception prints a traceback and gives status 1.
\<close>

definition run :: "local_env \<Rightarrow> provider \<Rightarrow> args \<Rightarrow> int \<times> world" where
  "run os prov a =
     (case main os prov a \<lparr>calls = [], printed = []\<rparr> of
        (Inr u, w) \<Rightarrow> (0, w)
      | (Inl (SystemExit n), w) \<Rightarrow> (n, w)
      | (Inl e, w) \<Rightarrow> (1, w\<lparr>printed := printed w @ [Traceback e]\<rparr>))"

section \<open>Vocabulary of the properties\<close>

text \<open>The calls made between two worlds.\<close>

definition new_calls :: "world \<Rightarrow> world \<Rightarrow> api_call list" where
  "new_calls w w' = drop (length (calls w)) (calls w')"

text \<open>A response of the provider that \<open>add_invoke_permission\<close> takes as success.\<close>

fun granted_or_conflict :: "exn + dict \<Rightarrow> bool" where
  "granted_or_conflict (Inr r) = True"
| "granted_or_conflict (Inl e) = (e = ClientError ''ResourceConflictException'')"

text \<open>The Lambda rules of a notification configuration, and whether a rule targets an ARN.\<close>

definition lambda_rules :: "dict \<Rightarrow> pyval list" where
  "lambda_rules cfg =
     (case map_of cfg ''LambdaFunctionConfigurations'' of Some (PList rs) \<Rightarrow> rs | _ \<Rightarrow> [])"

fun targets :: "string \<Rightarrow> pyval \<Rightarrow> bool" where
  "targets arn (PDict d) = (map_of d ''LambdaFunctionArn'' = Some (PStr arn))"
| "targets arn PNone = False"
| "targets arn (PBool b) = False"
| "targets arn (PInt i) = False"
| "targets arn (PStr s) = False"
| "targets arn (PBytes s) = False"
| "targets arn (PList xs) = False"

fun is_dict :: "pyval \<Rightarrow> bool" where
  "is_dict (PDict d) = True"
| "is_dict PNone = False"
| "is_dict (PBool b) = False"
| "is_dict (PInt i) = False"
| "is_dict (PStr s) = False"
| "is_dict (PBytes s) = False"
| "is_dict (PList xs) = False"

text \<open>
  A configuration as the service returns it: the key \<^verbatim>\<open>LambdaFunctionConfigurations\<close>
  is absent or holds a list of dicts.
\<close>

definition well_formed :: "dict \<Rightarrow> bool" where
  "well_formed cfg =
     (case map_of cfg ''LambdaFunctionConfigurations'' of
        None \<Rightarrow> True
      | Some (PList rs) \<Rightarrow> list_all is_dict rs
      | Some v \<Rightarrow> False)"

text \<open>The filter rules of a rule: \<^verbatim>\<open>rule["Filter"]["Key"]["FilterRules"]\<close>, if there.\<close>

definition filter_rules_of :: "dict \<Rightarrow> pyval list" where
  "filter_rules_of rule =
     (case map_of rule ''Filter'' of
        Some (PDict f) \<Rightarrow>
          (case map_of f ''Key'' of
             Some (PDict k) \<Rightarrow>
               (case map_of k ''FilterRules'' of Some (PList rs) \<Rightarrow> rs | _ \<Rightarrow> [])
           | _ \<Rightarrow> [])
      | _ \<Rightarrow> [])"

definition get_call :: "client \<Rightarrow> string \<Rightarrow> api_call" where
  "get_call s3_client bkt =
     Call s3_client ''get_bucket_notification_configuration'' [(''Bucket'', PStr bkt)]"

definition put_call :: "client \<Rightarrow> string \<Rightarrow> dict \<Rightarrow> api_call" where
  "put_call s3_client bkt nc =
     Call s3_client ''put_bucket_notification_configuration''
       [(''Bucket'', PStr bkt), (''NotificationConfiguration'', PDict nc)]"

section \<open>Example providers and inputs\<close>

text \<open>A provider that answers by operation name from a table, and with \<^verbatim>\<open>{}\<close> otherwise.\<close>

definition scripted :: "(string \<times> (exn + dict)) list \<Rightarrow> provider" where
  "scripted tbl h c = (case map_of tbl (operation c) of None \<Rightarrow> Inr [] | Some r \<Rightarrow> r)"

text \<open>A provider that reports a conflict for a permission statement it was already sent.\<close>

definition policy_provider :: provider where
  "policy_provider h c =
     (if operation c = ''add_permission'' \<and> c \<in> set h
      then Inl (ClientError ''ResourceConflictException'') else Inr [])"

text \<open>A provider that keeps the bucket's configuration: a read returns the last one written.\<close>

definition stored_configuration :: "dict \<Rightarrow> api_call list \<Rightarrow> dict" where
  "stored_configuration init h =
     foldl (\<lambda>cfg c.
              if operation c = ''put_bucket_notification_configuration''
              then (case map_of (kwargs c) ''NotificationConfiguration'' of
                      Some (PDict nc) \<Rightarrow> nc | _ \<Rightarrow> cfg)
              else cfg) init h"

definition bucket_provider :: "dict \<Rightarrow> provider" where
  "bucket_provider init h c =
     (if operation c = ''get_bucket_notification_configuration''
      then Inr (stored_configuration init h) else Inr [])"

definition example_rule :: "string \<Rightarrow> string \<Rightarrow> pyval" where
  "example_rule rule_id arn =
     PDict [(''Id'', PStr rule_id), (''LambdaFunctionArn'', PStr arn),
            (''Events'', PList [PStr ''s3:ObjectRemoved:*''])]"

definition example_topic :: pyval where
  "example_topic =
     PDict [(''Id'', PStr ''t1''), (''TopicArn'', PStr ''arn:aws:sns:us-east-1:1:t''),
            (''Events'', PList [PStr ''s3:ObjectCreated:*''])]"

definition example_cfg :: dict where
  "example_cfg =
     [(''TopicConfigurations'', PList [example_topic]),
      (''LambdaFunctionConfigurations'',
         PList [example_rule ''r1'' ''arn:f'', example_rule ''r2'' ''arn:g''])]"

definition example_os :: "bool \<Rightarrow> local_env" where
  "example_os present =
     \<lparr>boto3_Session = (\<lambda>r. Inr (Session r)),
      session_client = (\<lambda>s n. Inr (Client n)),
      path_exists = (\<lambda>p. present),
      zip_bytes = (\<lambda>p n. Inr ''PK'')\<rparr>"

definition example_args :: args where
  "example_args =
     \<lparr>bucket = ''b'', function_name = ''f'', role_arn = ''arn:role'', region = ''us-east-1'',
      prefix = None, suffix = None, sns_topic_arn = None, slack_webhook_url = None,
      file_path = ''lambda_function.py''\<rparr>"

section \<open>Calls made by \<open>upsert_lambda\<close>\<close>

lemmas run_defs = upsert_lambda_def update_path_def create_path_def invoke_def subscript_def
  scripted_def update_function_code_kwargs_def update_function_configuration_kwargs_def
  create_function_kwargs_def environment_arg_def new_calls_def

lemma update_path_calls:
  "calls (snd (update_path prov lc fn role z env w)) =
     calls w @ [Call lc ''update_function_code'' (update_function_code_kwargs fn z)]
   \<or> calls (snd (update_path prov lc fn role z env w)) =
     calls w @ [Call lc ''update_function_code'' (update_function_code_kwargs fn z),
                Call lc ''update_function_configuration''
                  (update_function_configuration_kwargs fn role env)]"
  by (simp add: update_path_def invoke_def split: sum.splits prod.splits)

lemma upsert_lambda_calls:
  "calls (snd (upsert_lambda prov lc fn role z rg env w)) =
     calls (snd (update_path prov lc fn role z env w)) @
       (if fst (update_path prov lc fn role z env w) = Inl (ClientError ''ResourceNotFoundException'')
        then [Call lc ''create_function'' (create_function_kwargs fn role z env)] else [])"
  by (simp add: upsert_lambda_def create_path_def invoke_def split: sum.splits prod.splits exn.splits)

section \<open>Claims about \<open>upsert_lambda\<close>\<close>

text \<open>
  C3. \<open>upsert_lambda\<close> calls \<^verbatim>\<open>create_function\<close> exactly when the update path raises a
  \<open>ClientError\<close> with code \<^verbatim>\<open>ResourceNotFoundException\<close>. Any other exception of the
  update path reaches the caller with no further call, and so does an exception of
  \<^verbatim>\<open>create_function\<close>. On the create path and on the update path the result is the
  \<^verbatim>\<open>FunctionArn\<close> of the response.
\<close>

theorem upsert_lambda_fallback:
  "((\<exists>c \<in> set (new_calls w (snd (upsert_lambda prov lc fn role z rg env w))).
        operation c = ''create_function'')
      \<longleftrightarrow> fst (update_path prov lc fn role z env w) = Inl (ClientError ''ResourceNotFoundException''))
   \<and> (\<forall>e. fst (update_path prov lc fn role z env w) = Inl e
          \<and> e \<noteq> ClientError ''ResourceNotFoundException''
        \<longrightarrow> upsert_lambda prov lc fn role z rg env w
              = (Inl e, snd (update_path prov lc fn role z env w)))
   \<and> (\<forall>e. fst (update_path prov lc fn role z env w) = Inl (ClientError ''ResourceNotFoundException'')
          \<and> prov (calls (snd (update_path prov lc fn role z env w)))
               (Call lc ''create_function'' (create_function_kwargs fn role z env)) = Inl e
        \<longrightarrow> fst (upsert_lambda prov lc fn role z rg env w) = Inl e)
   \<and> (\<forall>resp arn. fst (update_path prov lc fn role z env w) = Inl (ClientError ''ResourceNotFoundException'')
          \<and> prov (calls (snd (update_path prov lc fn role z env w)))
               (Call lc ''create_function'' (create_function_kwargs fn role z env)) = Inr resp
          \<and> map_of resp ''FunctionArn'' = Some arn
        \<longrightarrow> fst (upsert_lambda prov lc fn role z rg env w) = Inr arn)
   \<and> (\<forall>resp r arn.
          prov (calls w) (Call lc ''update_function_code'' (update_function_code_kwargs fn z)) = Inr resp
          \<and> prov (calls w @ [Call lc ''update_function_code'' (update_function_code_kwargs fn z)])
               (Call lc ''update_function_configuration''
                  (update_function_configuration_kwargs fn role env)) = Inr r
          \<and> map_of resp ''FunctionArn'' = Some arn
        \<longrightarrow> fst (upsert_lambda prov lc fn role z rg env w) = Inr arn)"
proof (intro conjI allI impI)
  show "(\<exists>c \<in> set (new_calls w (snd (upsert_lambda prov lc fn role z rg env w))).
        operation c = ''create_function'')
      \<longleftrightarrow> fst (update_path prov lc fn role z env w) = Inl (ClientError ''ResourceNotFoundException'')"
    using update_path_calls [of prov lc fn role z env w]
    by (auto simp add: new_calls_def upsert_lambda_calls)
next
  fix e
  assume "fst (update_path prov lc fn role z env w) = Inl e
          \<and> e \<noteq> ClientError ''ResourceNotFoundException''"
  then show "upsert_lambda prov lc fn role z rg env w
              = (Inl e, snd (update_path prov lc fn role z env w))"
    by (cases "update_path prov lc fn role z env w") (auto simp add: upsert_lambda_def split: exn.splits)
next
  fix e
  assume "fst (update_path prov lc fn role z env w) = Inl (ClientError ''ResourceNotFoundException'')
          \<and> prov (calls (snd (update_path prov lc fn role z env w)))
               (Call lc ''create_function'' (create_function_kwargs fn role z env)) = Inl e"
  then show "fst (upsert_lambda prov lc fn role z rg env w) = Inl e"
    by (cases "update_path prov lc fn role z env w")
       (auto simp add: upsert_lambda_def create_path_def invoke_def)
next
  fix resp arn
  assume "fst (update_path prov lc fn role z env w) = Inl (ClientError ''ResourceNotFoundException'')
          \<and> prov (calls (snd (update_path prov lc fn role z env w)))
               (Call lc ''create_function'' (create_function_kwargs fn role z env)) = Inr resp
          \<and> map_of resp ''FunctionArn'' = Some arn"
  then show "fst (upsert_lambda prov lc fn role z rg env w) = Inr arn"
    by (cases "update_path prov lc fn role z env w")
       (auto simp add: upsert_lambda_def create_path_def invoke_def subscript_def)
next
  fix resp r arn
  assume "prov (calls w) (Call lc ''update_function_code'' (update_function_code_kwargs fn z)) = Inr resp
          \<and> prov (calls w @ [Call lc ''update_function_code'' (update_function_code_kwargs fn z)])
               (Call lc ''update_function_configuration''
                  (update_function_configuration_kwargs fn role env)) = Inr r
          \<and> map_of resp ''FunctionArn'' = Some arn"
  then show "fst (upsert_lambda prov lc fn role z rg env w) = Inr arn"
    by (auto simp add: upsert_lambda_def update_path_def invoke_def subscript_def)
qed

theorem upsert_lambda_fallback_witness:
  "fst (update_path
          (scripted [(''update_function_code'', Inl (ClientError ''ResourceNotFoundException'')),
                     (''create_function'', Inr [(''FunctionArn'', PStr ''arn:f'')])])
          (Client ''lambda'') ''f'' ''arn:role'' ''PK'' [] \<lparr>calls = [], printed = []\<rparr>)
     = Inl (ClientError ''ResourceNotFoundException'')
   \<and> fst (upsert_lambda
          (scripted [(''update_function_code'', Inl (ClientError ''ResourceNotFoundException'')),
                     (''create_function'', Inr [(''FunctionArn'', PStr ''arn:f'')])])
          (Client ''lambda'') ''f'' ''arn:role'' ''PK'' ''us-east-1'' [] \<lparr>calls = [], printed = []\<rparr>)
     = Inr (PStr ''arn:f'')
   \<and> fst (upsert_lambda
          (scripted [(''update_function_code'', Inl (ClientError ''AccessDeniedException''))])
          (Client ''lambda'') ''f'' ''arn:role'' ''PK'' ''us-east-1'' [] \<lparr>calls = [], printed = []\<rparr>)
     = Inl (ClientError ''AccessDeniedException'')
   \<and> fst (upsert_lambda
          (scripted [(''update_function_code'', Inl (ClientError ''ResourceNotFoundException'')),
                     (''create_function'', Inl (ClientError ''InvalidParameterValueException''))])
          (Client ''lambda'') ''f'' ''arn:role'' ''PK'' ''us-east-1'' [] \<lparr>calls = [], printed = []\<rparr>)
     = Inl (ClientError ''InvalidParameterValueException'')
   \<and> fst (upsert_lambda
          (scripted [(''update_function_code'', Inr [(''FunctionArn'', PStr ''arn:f'')])])
          (Client ''lambda'') ''f'' ''arn:role'' ''PK'' ''us-east-1'' [] \<lparr>calls = [], printed = []\<rparr>)
     = Inr (PStr ''arn:f'')"
  using
    upsert_lambda_fallback [of "\<lparr>calls = [], printed = []\<rparr>"
      "scripted [(''update_function_code'', Inl (ClientError ''ResourceNotFoundException'')),
                 (''create_function'', Inr [(''FunctionArn'', PStr ''arn:f'')])]"
      "Client ''lambda''" "''f''" "''arn:role''" "''PK''" "''us-east-1''" "[]"]
    upsert_lambda_fallback [of "\<lparr>calls = [], printed = []\<rparr>"
      "scripted [(''update_function_code'', Inl (ClientError ''AccessDeniedException''))]"
      "Client ''lambda''" "''f''" "''arn:role''" "''PK''" "''us-east-1''" "[]"]
    upsert_lambda_fallback [of "\<lparr>calls = [], printed = []\<rparr>"
      "scripted [(''update_function_code'', Inl (ClientError ''ResourceNotFoundException'')),
                 (''create_function'', Inl (ClientError ''InvalidParameterValueException''))]"
      "Client ''lambda''" "''f''" "''arn:role''" "''PK''" "''us-east-1''" "[]"]
    upsert_lambda_fallback [of "\<lparr>calls = [], printed = []\<rparr>"
      "scripted [(''update_function_code'', Inr [(''FunctionArn'', PStr ''arn:f'')])]"
      "Client ''lambda''" "''f''" "''arn:role''" "''PK''" "''us-east-1''" "[]"]
  by (simp add: update_path_def invoke_def subscript_def scripted_def
        update_function_code_kwargs_def update_function_configuration_kwargs_def
        create_function_kwargs_def environment_arg_def)

text \<open>
  C7. When the update path raises \<^verbatim>\<open>ResourceNotFoundException\<close>, the one further call
  is \<^verbatim>\<open>create_function\<close> with runtime \<^verbatim>\<open>python3.12\<close>, handler
  \<^verbatim>\<open>lambda_function.lambda_handler\<close>, the given role, timeout 30, memory size 256, the
  given code payload and the environment mapping.
\<close>

theorem upsert_lambda_create_parameters:
  assumes "fst (update_path prov lc fn role z env w) = Inl (ClientError ''ResourceNotFoundException'')"
  shows "calls (snd (upsert_lambda prov lc fn role z rg env w)) =
           calls (snd (update_path prov lc fn role z env w)) @
           [Call lc ''create_function''
              [(''FunctionName'', PStr fn),
               (''Runtime'', PStr ''python3.12''),
               (''Role'', PStr role),
               (''Handler'', PStr ''lambda_function.lambda_handler''),
               (''Code'', PDict [(''ZipFile'', PBytes z)]),
               (''Timeout'', PInt 30),
               (''MemorySize'', PInt 256),
               (''Publish'', PBool True),
               (''Environment'', environment_arg env)]]"
  using assms by (simp add: upsert_lambda_calls create_function_kwargs_def)

theorem upsert_lambda_create_parameters_witness:
  "fst (update_path
          (scripted [(''update_function_code'', Inl (ClientError ''ResourceNotFoundException''))])
          (Client ''lambda'') ''f'' ''arn:role'' ''PK'' [(''SNS_TOPIC_ARN'', PStr ''arn:t'')]
          \<lparr>calls = [], printed = []\<rparr>)
     = Inl (ClientError ''ResourceNotFoundException'')
   \<and> calls (snd (upsert_lambda
          (scripted [(''update_function_code'', Inl (ClientError ''ResourceNotFoundException''))])
          (Client ''lambda'') ''f'' ''arn:role'' ''PK'' ''us-east-1''
          [(''SNS_TOPIC_ARN'', PStr ''arn:t'')] \<lparr>calls = [], printed = []\<rparr>))
     = [Call (Client ''lambda'') ''update_function_code''
          [(''FunctionName'', PStr ''f''), (''ZipFile'', PBytes ''PK''), (''Publish'', PBool True)],
        Call (Client ''lambda'') ''create_function''
          [(''FunctionName'', PStr ''f''),
           (''Runtime'', PStr ''python3.12''),
           (''Role'', PStr ''arn:role''),
           (''Handler'', PStr ''lambda_function.lambda_handler''),
           (''Code'', PDict [(''ZipFile'', PBytes ''PK'')]),
           (''Timeout'', PInt 30),
           (''MemorySize'', PInt 256),
           (''Publish'', PBool True),
           (''Environment'', PDict [(''Variables'', PDict [(''SNS_TOPIC_ARN'', PStr ''arn:t'')])])]]"
  using upsert_lambda_create_parameters [of
      "scripted [(''update_function_code'', Inl (ClientError ''ResourceNotFoundException''))]"
      "Client ''lambda''" "''f''" "''arn:role''" "''PK''" "[(''SNS_TOPIC_ARN'', PStr ''arn:t'')]"
      "\<lparr>calls = [], printed = []\<rparr>" "''us-east-1''"]
  by (simp add: update_path_def invoke_def scripted_def update_function_code_kwargs_def
        environment_arg_def)

text \<open>
  C8. Every call of \<open>upsert_lambda\<close> starts with \<^verbatim>\<open>update_function_code\<close> carrying
  \<^verbatim>\<open>Publish=True\<close>, and every \<^verbatim>\<open>update_function_code\<close> and \<^verbatim>\<open>create_function\<close>
  call it makes carries \<^verbatim>\<open>Publish=True\<close>.
\<close>

theorem upsert_lambda_publishes:
  "(\<exists>rest. new_calls w (snd (upsert_lambda prov lc fn role z rg env w)) =
        Call lc ''update_function_code''
          [(''FunctionName'', PStr fn), (''ZipFile'', PBytes z), (''Publish'', PBool True)] # rest)
   \<and> (\<forall>c \<in> set (new_calls w (snd (upsert_lambda prov lc fn role z rg env w))).
        operation c = ''update_function_code'' \<or> operation c = ''create_function''
        \<longrightarrow> map_of (kwargs c) ''Publish'' = Some (PBool True))"
  using update_path_calls [of prov lc fn role z env w]
  by (auto simp add: new_calls_def upsert_lambda_calls update_function_code_kwargs_def
        create_function_kwargs_def)

theorem upsert_lambda_publishes_witness:
  "map (\<lambda>c. (operation c, map_of (kwargs c) ''Publish''))
     (new_calls \<lparr>calls = [], printed = []\<rparr>
        (snd (upsert_lambda
          (scripted [(''update_function_code'', Inl (ClientError ''ResourceNotFoundException''))])
          (Client ''lambda'') ''f'' ''arn:role'' ''PK'' ''us-east-1'' []
          \<lparr>calls = [], printed = []\<rparr>)))
   = [(''update_function_code'', Some (PBool True)), (''create_function'', Some (PBool True))]"
  using upsert_lambda_publishes [of "\<lparr>calls = [], printed = []\<rparr>"
      "scripted [(''update_function_code'', Inl (ClientError ''ResourceNotFoundException''))]"
      "Client ''lambda''" "''f''" "''arn:role''" "''PK''" "''us-east-1''" "[]"]
  by (simp add: run_defs)

text \<open>
  C9. If \<^verbatim>\<open>update_function_code\<close> succeeds and \<^verbatim>\<open>update_function_configuration\<close> then
  raises \<^verbatim>\<open>ResourceNotFoundException\<close>, \<^verbatim>\<open>create_function\<close> is still called, and its
  outcome is the outcome of \<open>upsert_lambda\<close>.
\<close>

theorem upsert_lambda_fallback_after_configuration:
  assumes "prov (calls w) (Call lc ''update_function_code'' (update_function_code_kwargs fn z))
             = Inr resp"
    and "prov (calls w @ [Call lc ''update_function_code'' (update_function_code_kwargs fn z)])
           (Call lc ''update_function_configuration''
              (update_function_configuration_kwargs fn role env))
             = Inl (ClientError ''ResourceNotFoundException'')"
  shows "new_calls w (snd (upsert_lambda prov lc fn role z rg env w)) =
           [Call lc ''update_function_code'' (update_function_code_kwargs fn z),
            Call lc ''update_function_configuration''
              (update_function_configuration_kwargs fn role env),
            Call lc ''create_function'' (create_function_kwargs fn role z env)]
         \<and> fst (upsert_lambda prov lc fn role z rg env w) =
             (case prov (calls w @
                     [Call lc ''update_function_code'' (update_function_code_kwargs fn z),
                      Call lc ''update_function_configuration''
                        (update_function_configuration_kwargs fn role env)])
                    (Call lc ''create_function'' (create_function_kwargs fn role z env)) of
                Inl e \<Rightarrow> Inl e
              | Inr r \<Rightarrow> subscript r ''FunctionArn'')"
  using assms
  by (simp add: upsert_lambda_def update_path_def create_path_def invoke_def new_calls_def
        split: sum.splits)

theorem upsert_lambda_fallback_after_configuration_witness:
  "scripted [(''update_function_code'', Inr [(''FunctionArn'', PStr ''arn:old'')]),
             (''update_function_configuration'', Inl (ClientError ''ResourceNotFoundException'')),
             (''create_function'', Inr [(''FunctionArn'', PStr ''arn:new'')])]
     [] (Call (Client ''lambda'') ''update_function_code'' (update_function_code_kwargs ''f'' ''PK''))
     = Inr [(''FunctionArn'', PStr ''arn:old'')]
   \<and> map operation (new_calls \<lparr>calls = [], printed = []\<rparr>
        (snd (upsert_lambda
          (scripted [(''update_function_code'', Inr [(''FunctionArn'', PStr ''arn:old'')]),
             (''update_function_configuration'', Inl (ClientError ''ResourceNotFoundException'')),
             (''create_function'', Inr [(''FunctionArn'', PStr ''arn:new'')])])
          (Client ''lambda'') ''f'' ''arn:role'' ''PK'' ''us-east-1'' []
          \<lparr>calls = [], printed = []\<rparr>)))
     = [''update_function_code'', ''update_function_configuration'', ''create_function'']
   \<and> fst (upsert_lambda
          (scripted [(''update_function_code'', Inr [(''FunctionArn'', PStr ''arn:old'')]),
             (''update_function_configuration'', Inl (ClientError ''ResourceNotFoundException'')),
             (''create_function'', Inr [(''FunctionArn'', PStr ''arn:new'')])])
          (Client ''lambda'') ''f'' ''arn:role'' ''PK'' ''us-east-1'' []
          \<lparr>calls = [], printed = []\<rparr>)
     = Inr (PStr ''arn:new'')"
  using upsert_lambda_fallback_after_configuration [of
      "scripted [(''update_function_code'', Inr [(''FunctionArn'', PStr ''arn:old'')]),
             (''update_function_configuration'', Inl (ClientError ''ResourceNotFoundException'')),
             (''create_function'', Inr [(''FunctionArn'', PStr ''arn:new'')])]"
      "\<lparr>calls = [], printed = []\<rparr>" "Client ''lambda''" "''f''" "''PK''"
      "[(''FunctionArn'', PStr ''arn:old'')]" "''arn:role''" "[]" "''us-east-1''"]
  by (simp add: scripted_def subscript_def)

section \<open>Claims about \<open>add_invoke_permission\<close>\<close>

text \<open>
  C4. \<open>add_invoke_permission\<close> returns normally when the provider grants the permission
  or reports \<^verbatim>\<open>ResourceConflictException\<close>; every other exception reaches the caller.
  Hence two calls in a row with the same statement id both return normally when the
  provider answers each with a grant or a conflict.
\<close>

theorem add_invoke_permission_conflict_is_success:
  "(granted_or_conflict
      (prov (calls w) (Call lc ''add_permission'' (add_permission_kwargs fn barn sid)))
      \<longrightarrow> fst (add_invoke_permission prov lc fn barn sid w) = Inr ())
   \<and> (\<forall>e. prov (calls w) (Call lc ''add_permission'' (add_permission_kwargs fn barn sid)) = Inl e
          \<and> e \<noteq> ClientError ''ResourceConflictException''
        \<longrightarrow> fst (add_invoke_permission prov lc fn barn sid w) = Inl e)
   \<and> (granted_or_conflict
        (prov (calls w) (Call lc ''add_permission'' (add_permission_kwargs fn barn sid)))
      \<and> granted_or_conflict
        (prov (calls w @ [Call lc ''add_permission'' (add_permission_kwargs fn barn sid)])
           (Call lc ''add_permission'' (add_permission_kwargs fn barn sid)))
      \<longrightarrow> fst (add_invoke_permission prov lc fn barn sid w) = Inr ()
          \<and> fst (add_invoke_permission prov lc fn barn sid
                   (snd (add_invoke_permission prov lc fn barn sid w))) = Inr ())"
proof -
  have one: "fst (add_invoke_permission prov lc fn barn sid w') = Inr ()"
    if "granted_or_conflict
          (prov (calls w') (Call lc ''add_permission'' (add_permission_kwargs fn barn sid)))"
    for w'
    using that
    by (cases "prov (calls w') (Call lc ''add_permission'' (add_permission_kwargs fn barn sid))")
       (auto simp add: add_invoke_permission_def invoke_def split: exn.splits)
  have cs: "calls (snd (add_invoke_permission prov lc fn barn sid w)) =
              calls w @ [Call lc ''add_permission'' (add_permission_kwargs fn barn sid)]"
    by (simp add: add_invoke_permission_def invoke_def split: sum.splits exn.splits)
  have other: "fst (add_invoke_permission prov lc fn barn sid w) = Inl e"
    if "prov (calls w) (Call lc ''add_permission'' (add_permission_kwargs fn barn sid)) = Inl e"
      and "e \<noteq> ClientError ''ResourceConflictException''" for e
    using that by (auto simp add: add_invoke_permission_def invoke_def split: exn.splits)
  show ?thesis using one [of w] one [of "snd (add_invoke_permission prov lc fn barn sid w)"] cs other
    by auto
qed

theorem add_invoke_permission_conflict_is_success_witness:
  "granted_or_conflict
      (policy_provider [] (Call (Client ''lambda'') ''add_permission''
          (add_permission_kwargs ''f'' ''arn:aws:s3:::b'' ''AllowS3Invoke'')))
   \<and> policy_provider
        [Call (Client ''lambda'') ''add_permission''
           (add_permission_kwargs ''f'' ''arn:aws:s3:::b'' ''AllowS3Invoke'')]
        (Call (Client ''lambda'') ''add_permission''
           (add_permission_kwargs ''f'' ''arn:aws:s3:::b'' ''AllowS3Invoke''))
      = Inl (ClientError ''ResourceConflictException'')
   \<and> fst (add_invoke_permission policy_provider (Client ''lambda'') ''f'' ''arn:aws:s3:::b''
            ''AllowS3Invoke''
            (snd (add_invoke_permission policy_provider (Client ''lambda'') ''f''
                    ''arn:aws:s3:::b'' ''AllowS3Invoke'' \<lparr>calls = [], printed = []\<rparr>))) = Inr ()
   \<and> fst (add_invoke_permission
            (scripted [(''add_permission'', Inl (ClientError ''AccessDeniedException''))])
            (Client ''lambda'') ''f'' ''arn:aws:s3:::b'' ''AllowS3Invoke''
            \<lparr>calls = [], printed = []\<rparr>) = Inl (ClientError ''AccessDeniedException'')"
  using
    add_invoke_permission_conflict_is_success [of policy_provider "\<lparr>calls = [], printed = []\<rparr>"
      "Client ''lambda''" "''f''" "''arn:aws:s3:::b''" "''AllowS3Invoke''"]
    add_invoke_permission_conflict_is_success [of
      "scripted [(''add_permission'', Inl (ClientError ''AccessDeniedException''))]"
      "\<lparr>calls = [], printed = []\<rparr>"
      "Client ''lambda''" "''f''" "''arn:aws:s3:::b''" "''AllowS3Invoke''"]
  by (simp add: policy_provider_def scripted_def)

section \<open>The rules kept and the rule appended by \<open>configure_s3_notification\<close>\<close>

lemma py_get_Inr: "py_get c k = Inr v \<Longrightarrow> \<exists>d. c = PDict d"
  by (cases c) simp_all

lemma keep_others_no_target:
  "keep_others (PStr arn) cs = Inr ks \<Longrightarrow> filter (targets arn) ks = []"
proof (induction cs arbitrary: ks)
  case Nil
  then show ?case by simp
next
  case (Cons c cs)
  from Cons.prems obtain v ks' where v: "py_get c ''LambdaFunctionArn'' = Inr v"
    and ks': "keep_others (PStr arn) cs = Inr ks'"
    and ks: "ks = (if v \<noteq> PStr arn then c # ks' else ks')"
    by (auto split: sum.splits)
  from v obtain d where d: "c = PDict d" by (auto dest: py_get_Inr)
  have "v \<noteq> PStr arn \<Longrightarrow> \<not> targets arn c"
    using v d by (auto split: option.splits)
  with Cons.IH [OF ks'] ks show ?case by auto
qed

lemma keep_others_dicts:
  "list_all is_dict cs \<Longrightarrow> keep_others (PStr arn) cs = Inr (filter (\<lambda>c. \<not> targets arn c) cs)"
proof (induction cs)
  case Nil
  then show ?case by simp
next
  case (Cons c cs)
  then obtain d where d: "c = PDict d" by (cases c) auto
  from Cons show ?case by (auto simp add: d split: option.splits)
qed

lemma targets_lambda_config: "targets arn (PDict (lambda_config (PStr arn) pfx sfx))"
  by (simp add: lambda_config_def)

lemma new_configuration_one_rule:
  assumes "new_configuration cfg (PStr arn) pfx sfx = Inr nc"
  shows "length (filter (targets arn) (lambda_rules nc)) = 1"
proof -
  from assms obtain ks where nc: "nc = [(''LambdaFunctionConfigurations'',
      PList (ks @ [PDict (lambda_config (PStr arn) pfx sfx)]))]"
    and ks: "filter (targets arn) ks = []"
    by (auto simp add: new_configuration_def split: sum.splits dest: keep_others_no_target)
  show ?thesis using ks targets_lambda_config [of arn pfx sfx]
    by (simp add: nc lambda_rules_def)
qed

lemma new_configuration_well_formed:
  assumes "well_formed cfg"
  shows "new_configuration cfg (PStr arn) pfx sfx =
           Inr [(''LambdaFunctionConfigurations'',
                 PList (filter (\<lambda>c. \<not> targets arn c) (lambda_rules cfg)
                        @ [PDict (lambda_config (PStr arn) pfx sfx)]))]"
proof (cases "map_of cfg ''LambdaFunctionConfigurations''")
  case None
  then show ?thesis by (simp add: new_configuration_def lambda_rules_def)
next
  case (Some v)
  with assms obtain rs where v: "v = PList rs" and rs: "list_all is_dict rs"
    by (cases v) (auto simp add: well_formed_def)
  show ?thesis using Some v keep_others_dicts [OF rs, of arn]
    by (simp add: new_configuration_def lambda_rules_def)
qed

lemma list_all_filter: "list_all P xs \<Longrightarrow> list_all P (filter Q xs)"
  by (induction xs) auto

lemma well_formed_lambda_rules: "well_formed cfg \<Longrightarrow> list_all is_dict (lambda_rules cfg)"
  by (auto simp add: well_formed_def lambda_rules_def split: option.splits pyval.splits)

lemma new_configuration_keeps_well_formed:
  assumes "well_formed cfg" and "new_configuration cfg (PStr arn) pfx sfx = Inr nc"
  shows "well_formed nc"
  using assms(2) well_formed_lambda_rules [OF assms(1)]
  by (auto simp add: new_configuration_well_formed [OF assms(1)] well_formed_def
      intro: list_all_filter)

lemma configure_s3_notification_calls:
  assumes "prov (calls w) (get_call s3c bkt) = Inr cfg"
    and "new_configuration cfg arn pfx sfx = Inr nc"
  shows "calls (snd (configure_s3_notification prov s3c bkt arn pfx sfx w)) =
           calls w @ [get_call s3c bkt, put_call s3c bkt nc]"
  using assms
  by (simp add: configure_s3_notification_def invoke_def get_call_def put_call_def
      split: sum.splits)

lemma configure_s3_notification_put:
  assumes "put_call s3c bkt nc
             \<in> set (new_calls w (snd (configure_s3_notification prov s3c bkt arn pfx sfx w)))"
  shows "\<exists>cfg. prov (calls w) (get_call s3c bkt) = Inr cfg
               \<and> new_configuration cfg arn pfx sfx = Inr nc"
  using assms
  by (auto simp add: configure_s3_notification_def invoke_def get_call_def put_call_def
      new_calls_def split: sum.splits)

lemma new_configuration_shape:
  assumes "new_configuration cfg arn pfx sfx = Inr nc"
  shows "\<exists>kept. nc = [(''LambdaFunctionConfigurations'',
                        PList (kept @ [PDict (lambda_config arn pfx sfx)]))]"
proof (cases "py_iter (case map_of cfg ''LambdaFunctionConfigurations'' of
                         None \<Rightarrow> PList [] | Some v \<Rightarrow> v)")
  case (Inl e)
  with assms show ?thesis by (simp add: new_configuration_def)
next
  case (Inr existing)
  with assms show ?thesis
    by (cases "keep_others arn existing") (auto simp add: new_configuration_def)
qed

lemma filter_rules_prefix:
  "PDict [(''Name'', PStr ''prefix''), (''Value'', PStr p)] \<in> set (filter_rules pfx sfx)
     \<longleftrightarrow> pfx = Some p \<and> p \<noteq> []"
  by (cases pfx; cases sfx) (auto simp add: filter_rules_def)

lemma filter_rules_suffix:
  "PDict [(''Name'', PStr ''suffix''), (''Value'', PStr s)] \<in> set (filter_rules pfx sfx)
     \<longleftrightarrow> sfx = Some s \<and> s \<noteq> []"
  by (cases pfx; cases sfx) (auto simp add: filter_rules_def)

lemma filter_rules_empty: "filter_rules pfx sfx = [] \<longleftrightarrow> \<not> truthy pfx \<and> \<not> truthy sfx"
  by (simp add: filter_rules_def)

lemma filter_rules_length:
  "length (filter_rules pfx sfx) = (if truthy pfx then 1 else 0) + (if truthy sfx then 1 else 0)"
  by (simp add: filter_rules_def)

lemma filter_rules_of_lambda_config:
  "filter_rules_of (lambda_config arn pfx sfx) = filter_rules pfx sfx"
  by (simp add: filter_rules_of_def lambda_config_def)

section \<open>Calls made by \<open>main\<close>\<close>

lemma print_line_calls: "calls (print_line s vs w) = calls w"
  by (simp add: print_line_def)

lemma add_invoke_permission_calls:
  "calls (snd (add_invoke_permission prov lc fn barn sid w)) =
     calls w @ [Call lc ''add_permission'' (add_permission_kwargs fn barn sid)]"
  by (simp add: add_invoke_permission_def invoke_def split: sum.splits exn.splits)

lemma configure_s3_notification_operations:
  "c \<in> set (calls (snd (configure_s3_notification prov s3c bkt arn pfx sfx w))) \<Longrightarrow>
     c \<in> set (calls w)
     \<or> operation c = ''get_bucket_notification_configuration''
     \<or> operation c = ''put_bucket_notification_configuration''"
  by (auto simp add: configure_s3_notification_def invoke_def split: sum.splits)

lemma deploy_calls:
  assumes "c \<in> set (calls (snd (deploy prov s3c lam a z w)))"
  shows "c \<in> set (calls (snd (upsert_lambda prov lam (function_name a) (role_arn a) z
                                 (region a) (build_env a) w)))
         \<or> operation c = ''add_permission''
         \<or> operation c = ''get_bucket_notification_configuration''
         \<or> operation c = ''put_bucket_notification_configuration''"
proof (cases "upsert_lambda prov lam (function_name a) (role_arn a) z (region a) (build_env a) w")
  case (Pair r w1)
  show ?thesis
  proof (cases r)
    case (Inl e)
    with Pair assms show ?thesis by (simp add: deploy_def)
  next
    case (Inr lambda_arn)
    obtain r2 w2 where ap: "add_invoke_permission prov lam (function_name a)
        (''arn:aws:s3:::'' @ bucket a) default_statement_id w1 = (r2, w2)"
      by (cases "add_invoke_permission prov lam (function_name a)
        (''arn:aws:s3:::'' @ bucket a) default_statement_id w1")
    have w2: "calls w2 = calls w1 @ [Call lam ''add_permission''
        (add_permission_kwargs (function_name a) (''arn:aws:s3:::'' @ bucket a)
           default_statement_id)]"
      using add_invoke_permission_calls [of prov lam "function_name a"
          "''arn:aws:s3:::'' @ bucket a" default_statement_id w1] ap by simp
    show ?thesis
    proof (cases r2)
      case (Inl e)
      with Pair Inr ap assms w2 show ?thesis by (auto simp add: deploy_def)
    next
      case r2: (Inr u)
      obtain r3 w3 where cf: "configure_s3_notification prov s3c (bucket a) lambda_arn
          (prefix a) (suffix a) w2 = (r3, w3)"
        by (cases "configure_s3_notification prov s3c (bucket a) lambda_arn
          (prefix a) (suffix a) w2")
      from assms Pair Inr ap r2 cf have "c \<in> set (calls w3)"
        by (cases r3) (auto simp add: deploy_def print_line_calls)
      with configure_s3_notification_operations [of c prov s3c "bucket a" lambda_arn
          "prefix a" "suffix a" w2] cf w2 Pair
      show ?thesis by auto
    qed
  qed
qed

lemma main_calls:
  assumes "c \<in> set (calls (snd (main os prov a w)))"
  shows "c \<in> set (calls w) \<or> (\<exists>s3c lam z. c \<in> set (calls (snd (deploy prov s3c lam a z w))))"
  using assms by (auto simp add: main_def print_line_calls split: sum.splits if_splits)

lemma run_calls:
  "calls (snd (run os prov a)) = calls (snd (main os prov a \<lparr>calls = [], printed = []\<rparr>))"
  by (cases "main os prov a \<lparr>calls = [], printed = []\<rparr>")
     (auto simp add: run_def split: sum.splits exn.splits)

lemma upsert_lambda_environment:
  assumes "c \<in> set (new_calls w (snd (upsert_lambda prov lc fn role z rg env w)))"
    and "operation c = ''update_function_configuration'' \<or> operation c = ''create_function''"
  shows "map_of (kwargs c) ''Environment'' = Some (environment_arg env)"
  using assms update_path_calls [of prov lc fn role z env w]
  by (auto simp add: new_calls_def upsert_lambda_calls update_function_code_kwargs_def
      update_function_configuration_kwargs_def create_function_kwargs_def split: if_splits)

lemmas main_defs = run_def main_def deploy_def add_invoke_permission_def
  configure_s3_notification_def new_configuration_def lambda_config_def filter_rules_def
  build_env_def print_line_def add_permission_kwargs_def default_statement_id_def
  example_os_def example_args_def environment_arg_def upsert_lambda_def update_path_def create_path_def invoke_def subscript_def
  scripted_def update_function_code_kwargs_def update_function_configuration_kwargs_def
  create_function_kwargs_def new_calls_def

section \<open>Claims about \<open>configure_s3_notification\<close>\<close>

text \<open>
  C1. The claim is that every part of the configuration read, other than the Lambda rules
  for the given ARN, is written back unchanged, topic and queue rules included. The
  dict of line 93 has the one key \<^verbatim>\<open>LambdaFunctionConfigurations\<close>: on a bucket whose
  configuration holds a topic rule and two Lambda rules, the configuration written
  keeps the Lambda rule of the other function and has no \<^verbatim>\<open>TopicConfigurations\<close>.
\<close>

theorem configure_s3_notification_drops_topics:
  "scripted [(''get_bucket_notification_configuration'', Inr example_cfg)] []
     (get_call (Client ''s3'') ''b'') = Inr example_cfg
   \<and> map_of example_cfg ''TopicConfigurations'' = Some (PList [example_topic])
   \<and> new_calls \<lparr>calls = [], printed = []\<rparr>
        (snd (configure_s3_notification
                (scripted [(''get_bucket_notification_configuration'', Inr example_cfg)])
                (Client ''s3'') ''b'' (PStr ''arn:f'') None None \<lparr>calls = [], printed = []\<rparr>))
     = [get_call (Client ''s3'') ''b'',
        put_call (Client ''s3'') ''b''
          [(''LambdaFunctionConfigurations'',
            PList [example_rule ''r2'' ''arn:g'',
                   PDict [(''LambdaFunctionArn'', PStr ''arn:f''),
                          (''Events'', PList [PStr ''s3:ObjectCreated:*''])]])]]"
  by (simp add: configure_s3_notification_def invoke_def scripted_def new_configuration_def
      lambda_config_def filter_rules_def new_calls_def put_call_def get_call_def
      example_cfg_def example_rule_def)

text \<open>
  C2. Every configuration that \<open>configure_s3_notification\<close> writes has exactly one Lambda
  rule whose \<^verbatim>\<open>LambdaFunctionArn\<close> is the given ARN. On a configuration as the service
  returns it the write takes place, and a second application, reading what the first
  one wrote, again writes a configuration with exactly one such rule.
\<close>

theorem configure_s3_notification_one_rule:
  assumes "prov (calls w) (get_call s3c bkt) = Inr cfg"
  shows "(\<forall>c \<in> set (new_calls w (snd (configure_s3_notification prov s3c bkt (PStr arn) pfx sfx w))).
            \<forall>nc. c = put_call s3c bkt nc \<longrightarrow> length (filter (targets arn) (lambda_rules nc)) = 1)
         \<and> (well_formed cfg \<longrightarrow>
              (\<exists>nc. new_calls w (snd (configure_s3_notification prov s3c bkt (PStr arn) pfx sfx w))
                      = [get_call s3c bkt, put_call s3c bkt nc]
                    \<and> length (filter (targets arn) (lambda_rules nc)) = 1
                    \<and> (\<forall>w' pfx' sfx'. prov (calls w') (get_call s3c bkt) = Inr nc \<longrightarrow>
                          (\<exists>nc'. new_calls w'
                                    (snd (configure_s3_notification prov s3c bkt (PStr arn)
                                            pfx' sfx' w'))
                                  = [get_call s3c bkt, put_call s3c bkt nc']
                                \<and> length (filter (targets arn) (lambda_rules nc')) = 1))))"
proof (intro conjI ballI allI impI)
  fix c nc
  assume c: "c \<in> set (new_calls w (snd (configure_s3_notification prov s3c bkt (PStr arn) pfx sfx w)))"
    and put: "c = put_call s3c bkt nc"
  show "length (filter (targets arn) (lambda_rules nc)) = 1"
  proof (cases "new_configuration cfg (PStr arn) pfx sfx")
    case (Inl e)
    with assms c put show ?thesis
      by (auto simp add: configure_s3_notification_def invoke_def get_call_def put_call_def
          new_calls_def)
  next
    case (Inr nc')
    from configure_s3_notification_calls [where prov = prov and w = w, OF assms Inr] c put have "nc' = nc"
      by (auto simp add: new_calls_def get_call_def put_call_def)
    with Inr show ?thesis by (simp add: new_configuration_one_rule)
  qed
next
  assume wf: "well_formed cfg"
  define nc where "nc = [(''LambdaFunctionConfigurations'',
                 PList (filter (\<lambda>c. \<not> targets arn c) (lambda_rules cfg)
                        @ [PDict (lambda_config (PStr arn) pfx sfx)]))]"
  have nc: "new_configuration cfg (PStr arn) pfx sfx = Inr nc"
    by (simp add: nc_def new_configuration_well_formed [OF wf])
  have wf': "well_formed nc" by (rule new_configuration_keeps_well_formed [OF wf nc])
  have first: "new_calls w (snd (configure_s3_notification prov s3c bkt (PStr arn) pfx sfx w))
                 = [get_call s3c bkt, put_call s3c bkt nc]"
    by (simp add: new_calls_def configure_s3_notification_calls [where prov = prov and w = w, OF assms nc])
  have again: "\<exists>nc'. new_calls w'
                        (snd (configure_s3_notification prov s3c bkt (PStr arn) pfx' sfx' w'))
                      = [get_call s3c bkt, put_call s3c bkt nc']
                    \<and> length (filter (targets arn) (lambda_rules nc')) = 1"
    if get: "prov (calls w') (get_call s3c bkt) = Inr nc" for w' pfx' sfx'
  proof -
    obtain nc' where nc': "new_configuration nc (PStr arn) pfx' sfx' = Inr nc'"
      by (simp add: new_configuration_well_formed [OF wf'])
    show ?thesis
      using configure_s3_notification_calls [where prov = prov and w = w', OF get nc']
        new_configuration_one_rule [OF nc']
      by (intro exI [of _ nc']) (simp add: new_calls_def)
  qed
  show "\<exists>nc. new_calls w (snd (configure_s3_notification prov s3c bkt (PStr arn) pfx sfx w))
                      = [get_call s3c bkt, put_call s3c bkt nc]
                    \<and> length (filter (targets arn) (lambda_rules nc)) = 1
                    \<and> (\<forall>w' pfx' sfx'. prov (calls w') (get_call s3c bkt) = Inr nc \<longrightarrow>
                          (\<exists>nc'. new_calls w'
                                    (snd (configure_s3_notification prov s3c bkt (PStr arn)
                                            pfx' sfx' w'))
                                  = [get_call s3c bkt, put_call s3c bkt nc']
                                \<and> length (filter (targets arn) (lambda_rules nc')) = 1))"
    using first new_configuration_one_rule [OF nc] again by blast
qed

theorem configure_s3_notification_one_rule_witness:
  "bucket_provider example_cfg [] (get_call (Client ''s3'') ''b'') = Inr example_cfg
   \<and> well_formed example_cfg
   \<and> length (filter (targets ''arn:f'') (lambda_rules example_cfg)) = 1
   \<and> (\<exists>nc. new_calls \<lparr>calls = [], printed = []\<rparr>
               (snd (configure_s3_notification (bucket_provider example_cfg) (Client ''s3'') ''b''
                       (PStr ''arn:f'') None (Some ''.csv'') \<lparr>calls = [], printed = []\<rparr>))
              = [get_call (Client ''s3'') ''b'', put_call (Client ''s3'') ''b'' nc]
            \<and> length (filter (targets ''arn:f'') (lambda_rules nc)) = 1)"
proof -
  have get: "bucket_provider example_cfg (calls \<lparr>calls = [], printed = []\<rparr>)
               (get_call (Client ''s3'') ''b'') = Inr example_cfg"
    by (simp add: bucket_provider_def stored_configuration_def get_call_def)
  have wf: "well_formed example_cfg"
    by (simp add: well_formed_def example_cfg_def example_rule_def)
  have one: "length (filter (targets ''arn:f'') (lambda_rules example_cfg)) = 1"
    by (simp add: lambda_rules_def example_cfg_def example_rule_def)
  from configure_s3_notification_one_rule
         [where prov = "bucket_provider example_cfg" and w = "\<lparr>calls = [], printed = []\<rparr>",
          OF get, of "''arn:f''" None "Some ''.csv''"] wf
  have "\<exists>nc. new_calls \<lparr>calls = [], printed = []\<rparr>
               (snd (configure_s3_notification (bucket_provider example_cfg) (Client ''s3'') ''b''
                       (PStr ''arn:f'') None (Some ''.csv'') \<lparr>calls = [], printed = []\<rparr>))
              = [get_call (Client ''s3'') ''b'', put_call (Client ''s3'') ''b'' nc]
            \<and> length (filter (targets ''arn:f'') (lambda_rules nc)) = 1"
    by blast
  with get wf one show ?thesis by simp
qed

text \<open>
  C6, amended. The rule appended has the keys \<^verbatim>\<open>LambdaFunctionArn\<close> (the given ARN) and
  \<^verbatim>\<open>Events\<close> (exactly \<^verbatim>\<open>["s3:ObjectCreated:*"]\<close>), and a \<^verbatim>\<open>Filter\<close> key exactly when
  the prefix or the suffix is a non-empty string; the filter rules hold a prefix rule
  exactly for a non-empty prefix and a suffix rule exactly for a non-empty suffix.
\<close>

theorem appended_rule:
  assumes "put_call s3c bkt nc
             \<in> set (new_calls w (snd (configure_s3_notification prov s3c bkt arn pfx sfx w)))"
  shows "\<exists>kept rule.
           nc = [(''LambdaFunctionConfigurations'', PList (kept @ [PDict rule]))]
         \<and> map fst rule = [''LambdaFunctionArn'', ''Events'']
                @ (if truthy pfx \<or> truthy sfx then [''Filter''] else [])
         \<and> map_of rule ''LambdaFunctionArn'' = Some arn
         \<and> map_of rule ''Events'' = Some (PList [PStr ''s3:ObjectCreated:*''])
         \<and> (truthy pfx \<or> truthy sfx \<longrightarrow>
              map_of rule ''Filter''
                = Some (PDict [(''Key'', PDict [(''FilterRules'', PList (filter_rules_of rule))])]))
         \<and> (\<forall>p. PDict [(''Name'', PStr ''prefix''), (''Value'', PStr p)]
                    \<in> set (filter_rules_of rule) \<longleftrightarrow> pfx = Some p \<and> p \<noteq> [])
         \<and> (\<forall>s. PDict [(''Name'', PStr ''suffix''), (''Value'', PStr s)]
                    \<in> set (filter_rules_of rule) \<longleftrightarrow> sfx = Some s \<and> s \<noteq> [])
         \<and> length (filter_rules_of rule)
             = (if truthy pfx then 1 else 0) + (if truthy sfx then 1 else 0)"
proof -
  from configure_s3_notification_put [OF assms] obtain kept
    where nc: "nc = [(''LambdaFunctionConfigurations'',
                      PList (kept @ [PDict (lambda_config arn pfx sfx)]))]"
    by (auto dest: new_configuration_shape)
  have keys: "map fst (lambda_config arn pfx sfx) = [''LambdaFunctionArn'', ''Events'']
                @ (if truthy pfx \<or> truthy sfx then [''Filter''] else [])"
    by (simp add: lambda_config_def filter_rules_empty)
  have arn: "map_of (lambda_config arn pfx sfx) ''LambdaFunctionArn'' = Some arn"
    by (simp add: lambda_config_def)
  have events: "map_of (lambda_config arn pfx sfx) ''Events''
                  = Some (PList [PStr ''s3:ObjectCreated:*''])"
    by (simp add: lambda_config_def)
  have filt: "truthy pfx \<or> truthy sfx \<Longrightarrow>
      map_of (lambda_config arn pfx sfx) ''Filter''
        = Some (PDict [(''Key'', PDict [(''FilterRules'',
                  PList (filter_rules_of (lambda_config arn pfx sfx)))])])"
    unfolding filter_rules_of_lambda_config
    by (simp add: lambda_config_def filter_rules_empty)
  show ?thesis
    apply (rule exI [of _ kept])
    apply (rule exI [of _ "lambda_config arn pfx sfx"])
    using nc keys arn events filt
    by (simp add: filter_rules_of_lambda_config filter_rules_prefix filter_rules_suffix
        filter_rules_length)
qed

theorem appended_rule_witness:
  "put_call (Client ''s3'') ''b''
     [(''LambdaFunctionConfigurations'',
       PList [PDict [(''LambdaFunctionArn'', PStr ''arn:f''),
                     (''Events'', PList [PStr ''s3:ObjectCreated:*'']),
                     (''Filter'', PDict [(''Key'', PDict [(''FilterRules'',
                        PList [PDict [(''Name'', PStr ''prefix''), (''Value'', PStr ''in/'')],
                               PDict [(''Name'', PStr ''suffix''), (''Value'', PStr ''.csv'')]])])])]])]
     \<in> set (new_calls \<lparr>calls = [], printed = []\<rparr>
              (snd (configure_s3_notification (scripted []) (Client ''s3'') ''b'' (PStr ''arn:f'')
                      (Some ''in/'') (Some ''.csv'') \<lparr>calls = [], printed = []\<rparr>)))
   \<and> (\<exists>kept rule.
         [(''LambdaFunctionConfigurations'',
           PList [PDict [(''LambdaFunctionArn'', PStr ''arn:f''),
                     (''Events'', PList [PStr ''s3:ObjectCreated:*'']),
                     (''Filter'', PDict [(''Key'', PDict [(''FilterRules'',
                        PList [PDict [(''Name'', PStr ''prefix''), (''Value'', PStr ''in/'')],
                               PDict [(''Name'', PStr ''suffix''), (''Value'', PStr ''.csv'')]])])])]])]
           = [(''LambdaFunctionConfigurations'', PList (kept @ [PDict rule]))]
         \<and> map fst rule = [''LambdaFunctionArn'', ''Events'', ''Filter'']
         \<and> length (filter_rules_of rule) = 2)"
proof -
  have put: "put_call (Client ''s3'') ''b''
     [(''LambdaFunctionConfigurations'',
       PList [PDict [(''LambdaFunctionArn'', PStr ''arn:f''),
                     (''Events'', PList [PStr ''s3:ObjectCreated:*'']),
                     (''Filter'', PDict [(''Key'', PDict [(''FilterRules'',
                        PList [PDict [(''Name'', PStr ''prefix''), (''Value'', PStr ''in/'')],
                               PDict [(''Name'', PStr ''suffix''), (''Value'', PStr ''.csv'')]])])])]])]
     \<in> set (new_calls \<lparr>calls = [], printed = []\<rparr>
              (snd (configure_s3_notification (scripted []) (Client ''s3'') ''b'' (PStr ''arn:f'')
                      (Some ''in/'') (Some ''.csv'') \<lparr>calls = [], printed = []\<rparr>)))"
    by (simp add: configure_s3_notification_def invoke_def scripted_def new_configuration_def
        lambda_config_def filter_rules_def new_calls_def put_call_def)
  from appended_rule [OF put] put show ?thesis by simp
qed

text \<open>
  As the claim is worded, a prefix that is given yields a prefix rule. The test of line
  73 is the truth value of the string: the empty prefix is given, and the rule written
  has no \<^verbatim>\<open>Filter\<close> key.
\<close>

theorem empty_prefix_gives_no_filter:
  "(Some '''' :: string option) \<noteq> None
   \<and> new_calls \<lparr>calls = [], printed = []\<rparr>
        (snd (configure_s3_notification (scripted []) (Client ''s3'') ''b'' (PStr ''arn:f'')
                (Some '''') None \<lparr>calls = [], printed = []\<rparr>))
     = [get_call (Client ''s3'') ''b'',
        put_call (Client ''s3'') ''b''
          [(''LambdaFunctionConfigurations'',
            PList [PDict [(''LambdaFunctionArn'', PStr ''arn:f''),
                          (''Events'', PList [PStr ''s3:ObjectCreated:*''])]])]]"
  by (simp add: configure_s3_notification_def invoke_def scripted_def new_configuration_def
      lambda_config_def filter_rules_def new_calls_def put_call_def get_call_def)

section \<open>Claims about \<open>main\<close>\<close>

text \<open>
  C5. When the path of \<^verbatim>\<open>--file\<close> does not exist, the process exits with status 1,
  has printed something, and has made no provider call; when the session and the two
  clients were built, what it printed is the line \<^verbatim>\<open>Missing <path>\<close> on standard error.
  The outcome is the same under any other provider and any other packaging: neither
  is consulted.
\<close>

theorem missing_file_exits:
  assumes "\<not> path_exists os (file_path a)"
  shows "fst (run os prov a) = 1
         \<and> calls (snd (run os prov a)) = []
         \<and> printed (snd (run os prov a)) \<noteq> []
         \<and> (\<forall>sess s3c lam.
               boto3_Session os (region a) = Inr sess
               \<and> session_client os sess ''s3'' = Inr s3c
               \<and> session_client os sess ''lambda'' = Inr lam
               \<longrightarrow> printed (snd (run os prov a))
                     = [Print Stderr [PStr (''Missing '' @ file_path a)]])
         \<and> (\<forall>prov' zb. run (os\<lparr>zip_bytes := zb\<rparr>) prov' a = run os prov a)"
  using assms by (auto simp add: run_def main_def print_line_def split: sum.splits)

theorem missing_file_exits_witness:
  "\<not> path_exists (example_os False) (file_path example_args)
   \<and> run (example_os False) (scripted []) example_args
       = (1, \<lparr>calls = [], printed = [Print Stderr [PStr ''Missing lambda_function.py'']]\<rparr>)"
  using missing_file_exits [of "example_os False" example_args "scripted []"]
  by (simp add: run_def main_def print_line_def example_os_def example_args_def)

text \<open>
  C10. With neither \<^verbatim>\<open>--sns-topic-arn\<close> nor \<^verbatim>\<open>--slack-webhook-url\<close> the environment
  mapping built by \<open>main\<close> is empty, and every \<^verbatim>\<open>update_function_configuration\<close> and
  \<^verbatim>\<open>create_function\<close> call of the run carries \<^verbatim>\<open>Environment\<close> equal to \<^verbatim>\<open>{}\<close>. In
  general \<open>upsert_lambda\<close> passes \<^verbatim>\<open>{}\<close> for an empty mapping and
  \<^verbatim>\<open>{"Variables": env}\<close> for a non-empty one, to both operations.
\<close>

theorem empty_environment:
  "(sns_topic_arn a = None \<and> slack_webhook_url a = None \<longrightarrow>
      build_env a = []
      \<and> (\<forall>c \<in> set (calls (snd (run os prov a))).
            operation c = ''update_function_configuration'' \<or> operation c = ''create_function''
            \<longrightarrow> map_of (kwargs c) ''Environment'' = Some (PDict [])))
   \<and> (\<forall>c \<in> set (new_calls w (snd (upsert_lambda prov lc fn role z rg env w))).
         operation c = ''update_function_configuration'' \<or> operation c = ''create_function''
         \<longrightarrow> map_of (kwargs c) ''Environment''
               = Some (if env = [] then PDict [] else PDict [(''Variables'', PDict env)]))"
proof (intro conjI impI ballI)
  assume none: "sns_topic_arn a = None \<and> slack_webhook_url a = None"
  then show env: "build_env a = []" by (simp add: build_env_def)
  fix c
  assume c: "c \<in> set (calls (snd (run os prov a)))"
    and op: "operation c = ''update_function_configuration'' \<or> operation c = ''create_function''"
  from c main_calls [of c os prov a "\<lparr>calls = [], printed = []\<rparr>"]
  obtain s3c lam z where "c \<in> set (calls (snd (deploy prov s3c lam a z \<lparr>calls = [], printed = []\<rparr>)))"
    by (auto simp add: run_calls)
  from deploy_calls [OF this] op
  have "c \<in> set (new_calls \<lparr>calls = [], printed = []\<rparr>
          (snd (upsert_lambda prov lam (function_name a) (role_arn a) z
                                 (region a) (build_env a) \<lparr>calls = [], printed = []\<rparr>)))"
    by (auto simp add: new_calls_def)
  from upsert_lambda_environment [OF this op] env
  show "map_of (kwargs c) ''Environment'' = Some (PDict [])"
    by (simp add: environment_arg_def)
next
  fix c
  assume "c \<in> set (new_calls w (snd (upsert_lambda prov lc fn role z rg env w)))"
    and "operation c = ''update_function_configuration'' \<or> operation c = ''create_function''"
  from upsert_lambda_environment [OF this]
  show "map_of (kwargs c) ''Environment''
               = Some (if env = [] then PDict [] else PDict [(''Variables'', PDict env)])"
    by (simp add: environment_arg_def)
qed

theorem empty_environment_witness:
  "sns_topic_arn example_args = None \<and> slack_webhook_url example_args = None
   \<and> map (\<lambda>c. (operation c, map_of (kwargs c) ''Environment''))
       (calls (snd (run (example_os True)
          (scripted [(''update_function_code'', Inr [(''FunctionArn'', PStr ''arn:old'')]),
             (''update_function_configuration'', Inl (ClientError ''ResourceNotFoundException'')),
             (''create_function'', Inr [(''FunctionArn'', PStr ''arn:f'')])])
          example_args)))
     = [(''update_function_code'', None),
        (''update_function_configuration'', Some (PDict [])),
        (''create_function'', Some (PDict [])),
        (''add_permission'', None),
        (''get_bucket_notification_configuration'', None),
        (''put_bucket_notification_configuration'', None)]
   \<and> map (\<lambda>c. (operation c, map_of (kwargs c) ''Environment''))
       (new_calls \<lparr>calls = [], printed = []\<rparr>
          (snd (upsert_lambda (scripted []) (Client ''lambda'') ''f'' ''arn:role'' ''PK''
                  ''us-east-1'' [(''SNS_TOPIC_ARN'', PStr ''arn:t'')]
                  \<lparr>calls = [], printed = []\<rparr>)))
     = [(''update_function_code'', None),
        (''update_function_configuration'',
           Some (PDict [(''Variables'', PDict [(''SNS_TOPIC_ARN'', PStr ''arn:t'')])]))]"
  using
    empty_environment [where a = example_args and os = "example_os True" and prov =
      "scripted [(''update_function_code'', Inr [(''FunctionArn'', PStr ''arn:old'')]),
             (''update_function_configuration'', Inl (ClientError ''ResourceNotFoundException'')),
             (''create_function'', Inr [(''FunctionArn'', PStr ''arn:f'')])]"]
    empty_environment [where prov = "scripted []" and w = "\<lparr>calls = [], printed = []\<rparr>"
      and lc = "Client ''lambda''" and fn = "''f''" and role = "''arn:role''" and z = "''PK''"
      and rg = "''us-east-1''" and env = "[(''SNS_TOPIC_ARN'', PStr ''arn:t'')]"]
  by (simp add: main_defs)

end
